theory Spec2Isabelle
  imports Main "HOL-Library.Sublist"
begin

section \<open>Errors and executions\<close>

text \<open>
  A Go \<^verbatim>\<open>error\<close> value is its message; an error of the type \<^verbatim>\<open>*time.ParseError\<close>,
  the only errors \<^verbatim>\<open>time.ParseInLocation\<close> returns, is kept apart from the others by
  its constructor. The \<^verbatim>\<open>nil\<close> error is \<open>None\<close> of \<open>error option\<close>. A call either
  returns, never returns (it is blocked on a channel or on a process for ever), or
  panics.
\<close>

datatype error = Error string | ParseError string

datatype 'a exec = Returns 'a | Blocks | Panics string

section \<open>External commands\<close>

text \<open>
  \<^verbatim>\<open>exec.Command(name, arg...)\<close> is modelled by the argument vector \<^verbatim>\<open>cmd.Args\<close>
  it builds: the name followed by the arguments.
\<close>

type_synonym Cmd = "string list"

definition exec_Command :: "string \<Rightarrow> string list \<Rightarrow> Cmd" where
  "exec_Command name args = name # args"

text \<open>
  \<^verbatim>\<open>regexp.MustCompile("ffmpeg$").MatchString(path)\<close>: without flags \<^verbatim>\<open>$\<close> matches
  at the end of the text only, so the pattern matches exactly the paths that end in the
  literal.
\<close>

definition matchAtEnd :: "string \<Rightarrow> string \<Rightarrow> bool" where
  "matchAtEnd lit path = suffix lit path"

definition newFfmpegCmd :: "string \<Rightarrow> string \<Rightarrow> string \<Rightarrow> string \<Rightarrow> string \<Rightarrow> Cmd" where
  "newFfmpegCmd ffmpeg bitrate output title author =
     (let metatitle = ''title='' @ title;
          metaauthor = ''artist='' @ author
      in exec_Command ffmpeg
           [''-y'',
            ''-i'', ''-'',
            ''-vn'',
            ''-acodec'', ''copy'',
            ''-metadata'', metatitle,
            ''-metadata'', metaauthor,
            ''-metadata'', ''genre=radio'',
            output])"

definition newAvconvCmd :: "string \<Rightarrow> string \<Rightarrow> string \<Rightarrow> Cmd" where
  "newAvconvCmd avconv bitrate output =
     exec_Command avconv
       [''-y'',
        ''-i'', ''-'',
        ''-vn'',
        ''-c:a'', ''copy'',
        output]"

definition newConverterCmd ::
  "string \<Rightarrow> string \<Rightarrow> string \<Rightarrow> string \<Rightarrow> string \<Rightarrow> error + Cmd" where
  "newConverterCmd path bitrate output title author =
     (if matchAtEnd ''ffmpeg'' path then Inr (newFfmpegCmd path bitrate output title author)
      else if matchAtEnd ''avconv'' path then Inr (newAvconvCmd path bitrate output)
      else Inl (Error ''path should be ffmpeg or avconv''))"

text \<open>The metadata arguments that carry a title and an author.\<close>

definition metadataArgs :: "string \<Rightarrow> string \<Rightarrow> string list" where
  "metadataArgs title author =
     [''-metadata'', ''title='' @ title,
      ''-metadata'', ''artist='' @ author,
      ''-metadata'', ''genre=radio'']"

section \<open>Data model\<close>

record xml_Name =
  Space :: string
  Local :: string

record RadikoProg =
  XMLName :: xml_Name
  Ft :: string
  To :: string
  Ftl :: string
  Tol :: string
  Dur :: string
  Title :: string
  Subtitle :: string
  Pfm :: string
  Desc :: string
  Info :: string
  Url :: string

text \<open>
  One \<^verbatim>\<open>station\<close> element of \<^verbatim>\<open>RadikoPrograms\<close>; the nested anonymous structs
  \<^verbatim>\<open>Scd.Progs\<close> are flattened into the fields \<open>Date\<close> and \<open>Progs\<close>.
\<close>

record StationEntry =
  Id' :: string
  Name :: string
  Date :: string
  Progs :: "RadikoProg list"

record RadikoPrograms =
  Stations :: "StationEntry list"

text \<open>
  \<^verbatim>\<open>RadikoResult.Prog\<close> is a pointer in the source; every place that builds a
  \<^verbatim>\<open>RadikoResult\<close> (\<^verbatim>\<open>record\<close>, \<^verbatim>\<open>ConcatOutput\<close>) stores a program that exists.
\<close>

record RadikoResult =
  Mp3Path :: string
  Prog :: RadikoProg
  Station :: string

record Radiko =
  Station :: string
  Bitrate :: string
  Buffer :: int
  Converter :: string
  TempDir :: string
  Result :: "RadikoResult option"

section \<open>The capture pipeline\<close>

definition playerUrl :: string where
  "playerUrl = ''http://radiko.jp/apps/js/flash/myplayer-release.swf''"

definition rtmpdumpCmd :: "string \<Rightarrow> string \<Rightarrow> string \<Rightarrow> string \<Rightarrow> Cmd" where
  "rtmpdumpCmd rtmpdump station authtoken sec =
     exec_Command rtmpdump
       [''--live'',
        ''--quiet'',
        ''-r'', ''rtmpe://f-radiko.smartstream.ne.jp'',
        ''--playpath'', ''simul-stream.stream'',
        ''--app'', station @ ''/_definst_'',
        ''-W'', playerUrl,
        ''-C'', ''S:\"\"'', ''-C'', ''S:\"\"'', ''-C'', ''S:\"\"'', ''-C'', ''S:'' @ authtoken,
        ''--stop'', sec,
        ''-o'', ''-'']"

text \<open>
  What the outside world does during one call of \<^verbatim>\<open>download\<close>. Times are
  nanoseconds, counted from the moment the final \<^verbatim>\<open>select\<close> is reached.
  \<^item> \<open>lookRtmpdump\<close>: \<^verbatim>\<open>exec.LookPath("rtmpdump")\<close>;
  \<^item> \<open>stdoutPipe\<close>: the error of \<^verbatim>\<open>rtmpdumpCmd.StdoutPipe()\<close>;
  \<^item> \<open>converterStart\<close>, \<open>rtmpdumpRun\<close>, \<open>converterWait\<close>: the errors of the three
    steps the worker goroutine runs;
  \<^item> \<open>completesAfter\<close>: when the worker sends on \<^verbatim>\<open>errChan\<close> (\<open>None\<close>: never, a
    process hangs);
  \<^item> \<open>ctxDone\<close>: when \<^verbatim>\<open>ctx.Done()\<close> becomes ready (\<open>None\<close>: never), and \<open>ctxErr\<close>:
    \<^verbatim>\<open>ctx.Err()\<close> from then on;
  \<^item> \<open>killPanics\<close>: whether \<^verbatim>\<open>rtmpdumpCmd.Process.Kill()\<close> panics
    (\<^verbatim>\<open>rtmpdumpCmd.Process\<close> is still \<^verbatim>\<open>nil\<close> when the cancellation is seen before
    the worker has started the capture process);
  \<^item> \<open>signalBeatsDone\<close>: when \<^verbatim>\<open>errChan\<close> and \<^verbatim>\<open>ctx.Done()\<close> become ready at the
    same instant, \<^verbatim>\<open>select\<close> takes either; whether it takes \<^verbatim>\<open>errChan\<close>.
\<close>

record download_world =
  lookRtmpdump :: "error + string"
  stdoutPipe :: "error option"
  converterStart :: "error option"
  rtmpdumpRun :: "error option"
  converterWait :: "error option"
  completesAfter :: "nat option"
  ctxDone :: "nat option"
  ctxErr :: error
  killPanics :: bool
  signalBeatsDone :: bool

text \<open>The worker goroutine of \<^verbatim>\<open>download\<close>: the value it sends on \<^verbatim>\<open>errChan\<close>.\<close>

definition pipelineSignal :: "download_world \<Rightarrow> error option" where
  "pipelineSignal w =
     (case converterStart w of Some e \<Rightarrow> Some e
      | None \<Rightarrow>
     (case rtmpdumpRun w of Some e \<Rightarrow> Some e
      | None \<Rightarrow>
     (case converterWait w of Some e \<Rightarrow> Some e
      | None \<Rightarrow> None)))"

text \<open>
  The final \<^verbatim>\<open>select\<close> of \<^verbatim>\<open>download\<close>. When both channels are ready at the same
  instant the world says which case is taken. The result is the instant of the return
  and the returned error.
\<close>

definition downloadSelect :: "download_world \<Rightarrow> (nat \<times> error option) exec" where
  "downloadSelect w =
     (let cancelledFirst =
            (case ctxDone w of None \<Rightarrow> False
             | Some c \<Rightarrow>
                 (case completesAfter w of None \<Rightarrow> True
                  | Some d \<Rightarrow> c < d \<or> (c = d \<and> \<not> signalBeatsDone w)))
      in if cancelledFirst then
           (if killPanics w then Panics ''nil pointer dereference''
            else \<comment> \<open>\<^verbatim>\<open>rtmpdumpCmd.Process.Kill(); err := <-errChan\<close>\<close>
              (case completesAfter w of None \<Rightarrow> Blocks
               | Some d \<Rightarrow>
                   (case pipelineSignal w of None \<Rightarrow> Returns (d, Some (ctxErr w))
                    | Some e \<Rightarrow> Returns (d, Some e))))
         else
           (case completesAfter w of None \<Rightarrow> Blocks
            | Some d \<Rightarrow> Returns (d, pipelineSignal w)))"

definition Radiko_download ::
  "download_world \<Rightarrow> Radiko \<Rightarrow> string \<Rightarrow> string \<Rightarrow> string \<Rightarrow> string \<Rightarrow> string \<Rightarrow> string
     \<Rightarrow> string \<Rightarrow> (nat \<times> error option) exec" where
  "Radiko_download w r authtoken station sec bitrate output title author =
     (case lookRtmpdump w of Inl e \<Rightarrow> Returns (0, Some e)
      | Inr rtmpdump \<Rightarrow>
     (let capture = rtmpdumpCmd rtmpdump station authtoken sec in
      case newConverterCmd (Converter r) bitrate output title author of
        Inl e \<Rightarrow> Returns (0, Some e)
      | Inr converterCmd \<Rightarrow>
     (case stdoutPipe w of Some e \<Rightarrow> Returns (0, Some e)
      | None \<Rightarrow> downloadSelect w)))"

section \<open>Authentication, stage 2\<close>

text \<open>
  \<^verbatim>\<open>regexp.MustCompile("(.*),(.*),(.*)").FindAllStringSubmatch(s, -1)\<close>. The dot
  does not match a newline, so a match lies within one line, and a line has a match
  exactly when it holds at least two commas. The match is then the whole line, and the
  greedy groups split it at its last two commas. Each match has four entries: the match
  and the three groups.
\<close>

fun splitOn :: "char \<Rightarrow> string \<Rightarrow> string list" where
  "splitOn c [] = [[]]"
| "splitOn c (x # xs) =
     (if x = c then [] # splitOn c xs
      else (case splitOn c xs of [] \<Rightarrow> [[x]] | l # ls \<Rightarrow> (x # l) # ls))"

definition splitLast :: "char \<Rightarrow> string \<Rightarrow> string \<times> string" where
  "splitLast c s =
     (rev (tl (dropWhile (\<lambda>x. x \<noteq> c) (rev s))), rev (takeWhile (\<lambda>x. x \<noteq> c) (rev s)))"

definition submatches :: "string \<Rightarrow> string list" where
  "submatches line =
     (let (rest, g3) = splitLast CHR '','' line;
          (g1, g2) = splitLast CHR '','' rest
      in [line, g1, g2, g3])"

definition findAllSubmatch :: "string \<Rightarrow> string list list" where
  "findAllSubmatch s =
     map submatches (filter (\<lambda>line. 2 \<le> count_list line CHR '','') (splitOn (CHR 0x0A) s))"

text \<open>
  What the outside world does during one call of \<^verbatim>\<open>auth\<close>.
  \<^item> \<open>stage1\<close>: everything before the \<^verbatim>\<open>auth2_fms\<close> request (player download, key
    extraction, \<^verbatim>\<open>auth1_fms\<close>): the auth token, or the error of the first step that
    fails;
  \<^item> \<open>stage2Response\<close>: \<^verbatim>\<open>http.DefaultClient.Do(req)\<close> for \<^verbatim>\<open>auth2_fms\<close>: its error,
    or the result of \<^verbatim>\<open>ioutil.ReadAll(resp.Body)\<close>;
  \<^item> \<open>stage2Cancelled\<close>: \<^verbatim>\<open>ctx.Err()\<close> when \<^verbatim>\<open>httpDo\<close> takes its \<^verbatim>\<open>ctx.Done()\<close>
    case during that request.
\<close>

record auth_world =
  stage1 :: "error + string"
  stage2Response :: "error + (error + string)"
  stage2Cancelled :: "error option"

text \<open>
  The callback handed to \<^verbatim>\<open>httpDo\<close> for \<^verbatim>\<open>auth2_fms\<close>: the error it returns and the
  value it leaves in the captured variable \<^verbatim>\<open>area\<close> (initially empty). Indexing a
  slice out of range panics.
\<close>

definition auth2Callback :: "error + (error + string) \<Rightarrow> (error option \<times> string) exec" where
  "auth2Callback resp =
     (case resp of Inl err \<Rightarrow> Returns (Some err, [])
      | Inr body \<Rightarrow>
     (case body of Inl err \<Rightarrow> Returns (Some err, [])
      | Inr byt \<Rightarrow>
     (let matches = findAllSubmatch byt in
      if length matches = 1 \<and> length (matches ! 0) \<noteq> 4
        then Returns (Some (Error ''failed to auth''), [])
      else if length matches = 0 then Panics ''index out of range''
      else if length (matches ! 0) \<le> 1 then Panics ''index out of range''
      else Returns (None, matches ! 0 ! 1))))"

text \<open>
  \<^verbatim>\<open>httpDo\<close>: the callback runs in a goroutine of its own, so its panic ends the
  process. When \<^verbatim>\<open>ctx.Done()\<close> is taken, a \<^verbatim>\<open>nil\<close> result of the callback is
  replaced by \<^verbatim>\<open>ctx.Err()\<close>.
\<close>

definition httpDo :: "error option \<Rightarrow> (error option \<times> 's) exec \<Rightarrow> (error option \<times> 's) exec" where
  "httpDo cancelled f =
     (case f of Panics m \<Rightarrow> Panics m
      | Blocks \<Rightarrow> Blocks
      | Returns (err, s) \<Rightarrow>
          (case cancelled of None \<Rightarrow> Returns (err, s)
           | Some ctxe \<Rightarrow> Returns (if err = None then Some ctxe else err, s)))"

definition Radiko_auth :: "auth_world \<Rightarrow> (error + string \<times> string) exec" where
  "Radiko_auth w =
     (case stage1 w of Inl err \<Rightarrow> Returns (Inl err)
      | Inr authtoken \<Rightarrow>
     (case httpDo (stage2Cancelled w) (auth2Callback (stage2Response w)) of
        Panics m \<Rightarrow> Panics m
      | Blocks \<Rightarrow> Blocks
      | Returns (err, area) \<Rightarrow>
          (case err of Some e \<Rightarrow> Returns (Inl e)
           | None \<Rightarrow> Returns (Inr (authtoken, area)))))"

section \<open>Program lookup and one capture attempt\<close>

text \<open>
  What the outside world does during one call of \<^verbatim>\<open>record\<close>. A \<^verbatim>\<open>time.Time\<close> is
  represented by its Unix seconds, the only thing the comparisons read.
  \<^item> \<open>authW\<close>, \<open>downloadW\<close>: the worlds of the calls of \<^verbatim>\<open>auth\<close> and \<^verbatim>\<open>download\<close>;
  \<^item> \<open>todayProgramsResult\<close>: what \<^verbatim>\<open>todayPrograms(ctx, area)\<close> returns;
  \<^item> \<open>parseInLocation\<close>: \<^verbatim>\<open>time.ParseInLocation(radikoTimeLayout, s, time.Local)\<close>:
    the message of its \<^verbatim>\<open>*time.ParseError\<close>, or the time;
  \<^item> \<open>scanClock k\<close>: \<^verbatim>\<open>time.Now().Unix()\<close> as read for the \<open>k\<close>-th program that
    \<^verbatim>\<open>nowProgram\<close> compares (the clock is read once per program);
  \<^item> \<open>durationClock\<close>: \<^verbatim>\<open>time.Now().Unix()\<close> as read in \<^verbatim>\<open>Duration\<close>;
  \<^item> \<open>timeString\<close>: the text \<^verbatim>\<open>%s\<close> prints for a \<^verbatim>\<open>time.Time\<close>;
  \<^item> \<open>statOutput\<close>: the error of \<^verbatim>\<open>os.Stat(output)\<close> after the download.
\<close>

record attempt_world =
  authW :: auth_world
  todayProgramsResult :: "string \<Rightarrow> error + RadikoPrograms"
  parseInLocation :: "string \<Rightarrow> string + int"
  scanClock :: "nat \<Rightarrow> int"
  durationClock :: int
  timeString :: "int \<Rightarrow> string"
  downloadW :: download_world
  statOutput :: "error option"

definition RadikoProg_FtTime :: "(string \<Rightarrow> string + int) \<Rightarrow> RadikoProg \<Rightarrow> error + int" where
  "RadikoProg_FtTime parse r =
     (case parse (Ft r) of Inl msg \<Rightarrow> Inl (ParseError msg) | Inr t \<Rightarrow> Inr t)"

definition RadikoProg_ToTime :: "(string \<Rightarrow> string + int) \<Rightarrow> RadikoProg \<Rightarrow> error + int" where
  "RadikoProg_ToTime parse r =
     (case parse (To r) of Inl msg \<Rightarrow> Inl (ParseError msg) | Inr t \<Rightarrow> Inr t)"

definition RadikoProg_Duration ::
  "(string \<Rightarrow> string + int) \<Rightarrow> int \<Rightarrow> RadikoProg \<Rightarrow> error + int" where
  "RadikoProg_Duration parse now r =
     (case RadikoProg_ToTime parse r of Inl err \<Rightarrow> Inl err
      | Inr to \<Rightarrow> Inr (to - now))"

text \<open>
  The inner loop of \<^verbatim>\<open>nowProgram\<close> over the programs of one station: \<open>Some\<close> is a
  \<^verbatim>\<open>return\<close> from inside the loop, \<open>None\<close> is the loop running to its end.
\<close>

fun scanProgs ::
  "(string \<Rightarrow> string + int) \<Rightarrow> (nat \<Rightarrow> int) \<Rightarrow> nat \<Rightarrow> RadikoProg list
     \<Rightarrow> (error + RadikoProg) option" where
  "scanProgs parse clock k [] = None"
| "scanProgs parse clock k (prog # progs) =
     (case RadikoProg_FtTime parse prog of Inl err \<Rightarrow> Some (Inl err)
      | Inr ft \<Rightarrow>
     (case RadikoProg_ToTime parse prog of Inl err \<Rightarrow> Some (Inl err)
      | Inr to \<Rightarrow>
     (let now = clock k in
      if ft \<le> now \<and> now < to then Some (Inr prog)
      else scanProgs parse clock (Suc k) progs)))"

fun scanStations ::
  "(string \<Rightarrow> string + int) \<Rightarrow> (nat \<Rightarrow> int) \<Rightarrow> nat \<Rightarrow> string \<Rightarrow> StationEntry list
     \<Rightarrow> error + RadikoProg" where
  "scanStations parse clock k station [] = Inl (Error ''not found program'')"
| "scanStations parse clock k station (s # ss) =
     (if Id' s = station then
        (case scanProgs parse clock k (Progs s) of
           Some res \<Rightarrow> res
         | None \<Rightarrow> scanStations parse clock (k + length (Progs s)) station ss)
      else scanStations parse clock k station ss)"

definition Radiko_nowProgram :: "attempt_world \<Rightarrow> string \<Rightarrow> string \<Rightarrow> error + RadikoProg" where
  "Radiko_nowProgram w area station =
     (case todayProgramsResult w area of Inl err \<Rightarrow> Inl err
      | Inr progs \<Rightarrow>
          scanStations (parseInLocation w) (scanClock w) 0 station (Stations progs))"

text \<open>\<^verbatim>\<open>fmt.Sprint\<close> and \<^verbatim>\<open>%d\<close> of an integer: its decimal digits.\<close>

definition digitChar :: "nat \<Rightarrow> char" where
  "digitChar d = ''0123456789'' ! d"

function show_nat :: "nat \<Rightarrow> string" where
  "show_nat n = (if n < 10 then [digitChar n] else show_nat (n div 10) @ [digitChar (n mod 10)])"
  by pat_completeness auto
termination
  by (relation "measure (\<lambda>n. n)") auto

declare show_nat.simps [simp del]

definition show_int :: "int \<Rightarrow> string" where
  "show_int i = (if i < 0 then CHR ''-'' # show_nat (nat (- i)) else show_nat (nat i))"

text \<open>
  \<^verbatim>\<open>Radiko.record\<close>. Unix seconds and the buffer are unbounded integers here; the
  source computes them in \<^verbatim>\<open>int64\<close>.
\<close>

definition Radiko_record ::
  "attempt_world \<Rightarrow> Radiko \<Rightarrow> string \<Rightarrow> string \<Rightarrow> string \<Rightarrow> int
     \<Rightarrow> (RadikoResult option \<times> error option) exec" where
  "Radiko_record w r output station bitrate buffer =
     (case Radiko_auth (authW w) of
        Panics m \<Rightarrow> Panics m
      | Blocks \<Rightarrow> Blocks
      | Returns (Inl err) \<Rightarrow> Returns (None, Some err)
      | Returns (Inr (authtoken, area)) \<Rightarrow>
     (case Radiko_nowProgram w area station of Inl err \<Rightarrow> Returns (None, Some err)
      | Inr prog \<Rightarrow>
     (case RadikoProg_Duration (parseInLocation w) (durationClock w) prog of
        Inl err \<Rightarrow> Returns (None, Some err)
      | Inr d \<Rightarrow>
     (let duration = d + buffer in
      case RadikoProg_FtTime (parseInLocation w) prog of Inl err \<Rightarrow> Returns (None, Some err)
      | Inr ft \<Rightarrow>
     (let title = Title prog @ '' ('' @ timeString w ft @ '')'' in
      case Radiko_download (downloadW w) r authtoken station (show_int duration) bitrate
             output title (Pfm prog) of
        Panics m \<Rightarrow> Panics m
      | Blocks \<Rightarrow> Blocks
      | Returns (t, err) \<Rightarrow>
          (case statOutput w of Some fileErr \<Rightarrow> Returns (None, err)
           | None \<Rightarrow>
               Returns (Some \<lparr>Mp3Path = output, Prog = prog, RadikoResult.Station = station\<rparr>,
                        err)))))))"

section \<open>The session supervisor\<close>

text \<open>
  What the outside world does during one session. Times are nanoseconds from the start
  of \<^verbatim>\<open>run\<close>.
  \<^item> \<open>worlds n\<close>: the world of the call of \<^verbatim>\<open>record\<close> made with \<^verbatim>\<open>retry = n\<close>;
  \<^item> \<open>latency n\<close>: how long after its start that call has returned and its error is
    offered on \<^verbatim>\<open>errChan\<close>;
  \<^item> \<open>cancelAt\<close>: when \<^verbatim>\<open>ctx.Done()\<close> becomes ready (\<open>None\<close>: never);
  \<^item> \<open>startBeatsDone n\<close>, \<open>finishBeatsDone n\<close>, \<open>finishBeatsTimer\<close>: when two cases of
    a \<^verbatim>\<open>select\<close> become ready at the same instant, \<^verbatim>\<open>select\<close> takes either; whether
    it takes the start signal of attempt \<open>n\<close> rather than \<^verbatim>\<open>ctx.Done()\<close>, the end of
    attempt \<open>n\<close> on \<^verbatim>\<open>errChan\<close> rather than \<^verbatim>\<open>ctx.Done()\<close>, and \<^verbatim>\<open>errChan\<close>
    rather than the timer of 10 seconds;
  \<^item> \<open>filepath_Join\<close>: \<^verbatim>\<open>filepath.Join\<close> of a directory and a file name;
  \<^item> \<open>concatRun\<close>: the error of \<^verbatim>\<open>cmd.Run()\<close> of the concat command.
\<close>

record session_env =
  worlds :: "nat \<Rightarrow> attempt_world"
  latency :: "nat \<Rightarrow> nat"
  cancelAt :: "nat option"
  startBeatsDone :: "nat \<Rightarrow> bool"
  finishBeatsDone :: "nat \<Rightarrow> bool"
  finishBeatsTimer :: bool
  filepath_Join :: "string \<Rightarrow> string \<Rightarrow> string"
  concatRun :: "error option"

text \<open>
  What \<^verbatim>\<open>run\<close> has done when it returns: the results it returns, the attempts it
  started (the value of \<^verbatim>\<open>retry\<close> and the instant of the start), and the instant of
  the return.
\<close>

record session =
  outputs :: "RadikoResult list"
  attempts :: "(nat \<times> nat) list"
  endTime :: nat

definition Second :: nat where
  "Second = 1000000000"

text \<open>
  The closure \<^verbatim>\<open>record\<close> of \<^verbatim>\<open>run\<close>: the results after its \<^verbatim>\<open>append\<close>, and the
  error it returns.
\<close>

definition attemptOutput :: "session_env \<Rightarrow> Radiko \<Rightarrow> nat \<Rightarrow> string" where
  "attemptOutput env r retry =
     filepath_Join env (TempDir r) (''radiko_'' @ show_nat retry @ ''.m4a'')"

definition recordClosure ::
  "session_env \<Rightarrow> Radiko \<Rightarrow> nat \<Rightarrow> RadikoResult list \<Rightarrow> (RadikoResult list \<times> error option) exec" where
  "recordClosure env r retry results =
     (let output = attemptOutput env r retry in
      case Radiko_record (worlds env retry) r output (Radiko.Station r) (Bitrate r) (Buffer r) of
        Panics m \<Rightarrow> Panics m
      | Blocks \<Rightarrow> Blocks
      | Returns (ret, err) \<Rightarrow>
          Returns (case ret of None \<Rightarrow> results | Some x \<Rightarrow> results @ [x], err))"

text \<open>The call of \<^verbatim>\<open>record\<close> made with \<^verbatim>\<open>retry = n\<close> returns an error.\<close>

definition attemptFails :: "session_env \<Rightarrow> Radiko \<Rightarrow> nat \<Rightarrow> bool" where
  "attemptFails env r n =
     (case Radiko_record (worlds env n) r (attemptOutput env r n) (Radiko.Station r) (Bitrate r)
             (Buffer r) of
        Returns (ret, Some err) \<Rightarrow> True
      | _ \<Rightarrow> False)"

text \<open>
  The case \<^verbatim>\<open><-ctx.Done()\<close> of \<^verbatim>\<open>run\<close>, taken at the instant \<open>c\<close>: the inner
  \<^verbatim>\<open>select\<close> receives from \<^verbatim>\<open>errChan\<close> or from a timer of 10 seconds, whichever is
  ready first (\<open>signalWins\<close> says whether it is \<^verbatim>\<open>errChan\<close> when both are). \<open>inflight\<close>
  is the attempt in flight, if there is one: the instant at which it ends and how it
  ends.
\<close>

definition drain ::
  "nat \<Rightarrow> (nat \<times> (RadikoResult list \<times> error option) exec) option \<Rightarrow> bool
     \<Rightarrow> RadikoResult list \<Rightarrow> (nat \<times> nat) list \<Rightarrow> session exec" where
  "drain c inflight signalWins results started =
     (let timeout = Returns \<lparr>outputs = results, attempts = started, endTime = c + 10 * Second\<rparr>
      in case inflight of None \<Rightarrow> timeout
         | Some (fin, outcome) \<Rightarrow>
             (if fin < c + 10 * Second \<or> (fin = c + 10 * Second \<and> signalWins) then
                (case outcome of
                   Returns (results', err) \<Rightarrow>
                     Returns \<lparr>outputs = results', attempts = started, endTime = fin\<rparr>
                 | Panics m \<Rightarrow> Panics m
                 | Blocks \<Rightarrow> timeout)
              else timeout))"

text \<open>
  Whether \<^verbatim>\<open><-ctx.Done()\<close> is taken rather than a case that becomes ready at the
  instant \<open>t\<close>, and at which instant: it is when the context is cancelled before \<open>t\<close>,
  or at \<open>t\<close> with the other case not chosen.
\<close>

definition doneTaken :: "nat option \<Rightarrow> nat \<Rightarrow> bool \<Rightarrow> nat option" where
  "doneTaken cancel t otherWins =
     (case cancel of None \<Rightarrow> None
      | Some c \<Rightarrow> if c < t \<or> (c = t \<and> \<not> otherWins) then Some c else None)"

text \<open>
  The loop of \<^verbatim>\<open>run\<close>, entered with the start signal \<^verbatim>\<open>c\<close> becoming ready at the
  instant \<open>t\<close>. A panic of the worker goroutine ends the process.
\<close>

function runLoop ::
  "session_env \<Rightarrow> Radiko \<Rightarrow> nat \<Rightarrow> nat \<Rightarrow> RadikoResult list \<Rightarrow> (nat \<times> nat) list
     \<Rightarrow> session exec" where
  "runLoop env r retry t results started =
     (case doneTaken (cancelAt env) t (startBeatsDone env retry) of
        Some c \<Rightarrow> drain c None (finishBeatsTimer env) results started
      | None \<Rightarrow>
     (let started' = started @ [(retry, t)];
          fin = t + latency env retry;
          outcome = recordClosure env r retry results
      in case outcome of
           Blocks \<Rightarrow>
             (case cancelAt env of None \<Rightarrow> Blocks
              | Some c \<Rightarrow> drain c (Some (fin, Blocks)) (finishBeatsTimer env) results started')
         | Panics m \<Rightarrow>
             (case doneTaken (cancelAt env) fin (finishBeatsDone env retry) of
                Some c \<Rightarrow> drain c (Some (fin, outcome)) (finishBeatsTimer env) results started'
              | None \<Rightarrow> Panics m)
         | Returns (results', err) \<Rightarrow>
             (case doneTaken (cancelAt env) fin (finishBeatsDone env retry) of
                Some c \<Rightarrow> drain c (Some (fin, outcome)) (finishBeatsTimer env) results started'
              | None \<Rightarrow>
                  (if err = None then
                     Returns \<lparr>outputs = results', attempts = started', endTime = fin\<rparr>
                   else if retry < 5 then
                     runLoop env r (retry + 1) (fin + 10 * Second) results' started'
                   else
                     Returns \<lparr>outputs = results', attempts = started', endTime = fin\<rparr>))))"
  by pat_completeness auto
termination
  by (relation "measure (\<lambda>(env, r, retry, t, results, started). 5 - retry)") auto

declare runLoop.simps [simp del]

definition Radiko_run :: "session_env \<Rightarrow> Radiko \<Rightarrow> session exec" where
  "Radiko_run env r = runLoop env r 0 0 [] []"

text \<open>The instant at which the attempt with \<^verbatim>\<open>retry = n\<close> starts when all before it fail.\<close>

fun retryStart :: "session_env \<Rightarrow> nat \<Rightarrow> nat" where
  "retryStart env 0 = 0"
| "retryStart env (Suc n) = retryStart env n + latency env n + 10 * Second"

section \<open>The segment merger and the session result\<close>

fun strings_Join :: "string list \<Rightarrow> string \<Rightarrow> string" where
  "strings_Join [] sep = []"
| "strings_Join [x] sep = x"
| "strings_Join (x # y # ys) sep = x @ sep @ strings_Join (y # ys) sep"

text \<open>
  \<^verbatim>\<open>ConcatOutput\<close>: what it returns, and the commands it has run.
\<close>

definition Radiko_ConcatOutput ::
  "session_env \<Rightarrow> Radiko \<Rightarrow> string \<Rightarrow> RadikoResult list \<Rightarrow> (error + RadikoResult) exec \<times> Cmd list" where
  "Radiko_ConcatOutput env r dir results =
     (let output = filepath_Join env dir ''radiko_concat.m4a'';
          outputs = map Mp3Path results;
          args = [''-i'',
                  ''concat:'' @ strings_Join outputs ''|'',
                  ''-acodec'',
                  ''copy'',
                  output];
          cmd = exec_Command (Converter r) args
      in case concatRun env of Some err \<Rightarrow> (Returns (Inl err), [cmd])
         | None \<Rightarrow>
             (case results of [] \<Rightarrow> (Panics ''index out of range'', [cmd])
              | first # rest \<Rightarrow>
                  (Returns (Inr \<lparr>Mp3Path = output, Prog = Prog first,
                                 RadikoResult.Station = RadikoResult.Station first\<rparr>), [cmd])))"

text \<open>
  \<^verbatim>\<open>Radiko.Run\<close>: the receiver afterwards, the error returned, and the commands the
  merge step has run.
\<close>

definition Radiko_Run :: "session_env \<Rightarrow> Radiko \<Rightarrow> (Radiko \<times> error option \<times> Cmd list) exec" where
  "Radiko_Run env r =
     (case Radiko_run env r of
        Panics m \<Rightarrow> Panics m
      | Blocks \<Rightarrow> Blocks
      | Returns s \<Rightarrow>
     (let results = outputs s in
      if length results = 0 then Returns (r, Some (Error ''empty outputs''), [])
      else if length results = 1 then Returns (r\<lparr>Result := Some (results ! 0)\<rparr>, None, [])
      else
        (case Radiko_ConcatOutput env r (TempDir r) results of
           (Panics m, cmds) \<Rightarrow> Panics m
         | (Blocks, cmds) \<Rightarrow> Blocks
         | (Returns (Inl err), cmds) \<Rightarrow> Returns (r, Some err, cmds)
         | (Returns (Inr result), cmds) \<Rightarrow> Returns (r\<lparr>Result := Some result\<rparr>, None, cmds))))"

section \<open>The result persister\<close>








section \<open>Notions used in the properties\<close>

text \<open>
  The programs listed under the stations whose id is \<open>station\<close>, in list order; a
  program whose two timestamps parse; a program whose interval, start inclusive and end
  exclusive, holds the instant \<open>now\<close>.
\<close>

definition listedProgs :: "string \<Rightarrow> StationEntry list \<Rightarrow> RadikoProg list" where
  "listedProgs station ss = concat (map Progs (filter (\<lambda>s. Id' s = station) ss))"

definition stampsParse :: "(string \<Rightarrow> string + int) \<Rightarrow> RadikoProg \<Rightarrow> bool" where
  "stampsParse parse p =
     (case RadikoProg_FtTime parse p of Inl err \<Rightarrow> False
      | Inr ft \<Rightarrow> (case RadikoProg_ToTime parse p of Inl err \<Rightarrow> False | Inr to \<Rightarrow> True))"

definition onAir :: "(string \<Rightarrow> string + int) \<Rightarrow> int \<Rightarrow> RadikoProg \<Rightarrow> bool" where
  "onAir parse now p =
     (case RadikoProg_FtTime parse p of Inl err \<Rightarrow> False
      | Inr ft \<Rightarrow>
          (case RadikoProg_ToTime parse p of Inl err \<Rightarrow> False
           | Inr to \<Rightarrow> ft \<le> now \<and> now < to))"


text \<open>The command of the merge step for the results of a session.\<close>

definition mergeCmd :: "session_env \<Rightarrow> Radiko \<Rightarrow> RadikoResult list \<Rightarrow> Cmd" where
  "mergeCmd env r results =
     [Converter r, ''-i'', ''concat:'' @ strings_Join (map Mp3Path results) ''|'',
      ''-acodec'', ''copy'', filepath_Join env (TempDir r) ''radiko_concat.m4a'']"

section \<open>Example worlds\<close>

text \<open>
  Stand-ins for the library in the examples: \<^verbatim>\<open>filepath.Join\<close> of a clean directory
  and a file name, and \<^verbatim>\<open>time.ParseInLocation\<close> for the layout \<^verbatim>\<open>20060102150405\<close>
  with UTC as the local zone (fourteen digits, each field in its range).
\<close>

definition joinSlash :: "string \<Rightarrow> string \<Rightarrow> string" where
  "joinSlash dir name = dir @ ''/'' @ name"

definition digitOf :: "char \<Rightarrow> nat option" where
  "digitOf c =
     (let n = (of_char c :: nat) in if 48 \<le> n \<and> n \<le> 57 then Some (n - 48) else None)"

fun number :: "nat \<Rightarrow> string \<Rightarrow> nat option" where
  "number acc [] = Some acc"
| "number acc (c # cs) =
     (case digitOf c of None \<Rightarrow> None | Some d \<Rightarrow> number (10 * acc + d) cs)"

definition leapYear :: "nat \<Rightarrow> bool" where
  "leapYear y = (y mod 4 = 0 \<and> (y mod 100 \<noteq> 0 \<or> y mod 400 = 0))"

definition daysIn :: "nat \<Rightarrow> nat \<Rightarrow> nat" where
  "daysIn m y =
     (if m = 2 then (if leapYear y then 29 else 28)
      else if m = 4 \<or> m = 6 \<or> m = 9 \<or> m = 11 then 30 else 31)"

definition daysFromCivil :: "int \<Rightarrow> int \<Rightarrow> int \<Rightarrow> int" where
  "daysFromCivil y m d =
     (let y' = (if m \<le> 2 then y - 1 else y);
          era = y' div 400;
          yoe = y' - era * 400;
          doy = (153 * (if m > 2 then m - 3 else m + 9) + 2) div 5 + d - 1;
          doe = yoe * 365 + yoe div 4 - yoe div 100 + doy
      in era * 146097 + doe - 719468)"

definition parseUTC :: "string \<Rightarrow> string + int" where
  "parseUTC s =
     (if length s \<noteq> 14 then Inl ''parsing time''
      else
        case (number 0 (take 4 s), number 0 (take 2 (drop 4 s)), number 0 (take 2 (drop 6 s)),
              number 0 (take 2 (drop 8 s)), number 0 (take 2 (drop 10 s)),
              number 0 (take 2 (drop 12 s))) of
          (Some y, Some m, Some d, Some h, Some mi, Some sec) \<Rightarrow>
            (if 1 \<le> m \<and> m \<le> 12 \<and> 1 \<le> d \<and> d \<le> daysIn m y \<and> h < 24 \<and> mi < 60 \<and> sec < 60
             then Inr (daysFromCivil (int y) (int m) (int d) * 86400
                       + int h * 3600 + int mi * 60 + int sec)
             else Inl ''parsing time: out of range'')
        | _ \<Rightarrow> Inl ''parsing time'')"

text \<open>
  Station \<^verbatim>\<open>TEST1\<close> with two programs, 11:00 to 12:00 and 12:00 to 13:00 on
  2024-01-01; the same followed by a program whose timestamps are empty; that program
  alone.
\<close>

definition earlyShow :: RadikoProg where
  "earlyShow =
     \<lparr>XMLName = \<lparr>Space = [], Local = ''prog''\<rparr>,
      Ft = ''20240101110000'', To = ''20240101120000'', Ftl = ''1100'', Tol = ''1200'',
      Dur = ''3600'', Title = ''Early Show'', Subtitle = [], Pfm = ''Host A'', Desc = [],
      Info = [], Url = []\<rparr>"

definition morningShow :: RadikoProg where
  "morningShow =
     \<lparr>XMLName = \<lparr>Space = [], Local = ''prog''\<rparr>,
      Ft = ''20240101120000'', To = ''20240101130000'', Ftl = ''1200'', Tol = ''1300'',
      Dur = ''3600'', Title = ''Morning Show'', Subtitle = [], Pfm = ''Host B'', Desc = [],
      Info = [], Url = []\<rparr>"

definition undatedShow :: RadikoProg where
  "undatedShow = morningShow\<lparr>Ft := [], To := []\<rparr>"

definition testSchedule :: RadikoPrograms where
  "testSchedule =
     \<lparr>Stations = [\<lparr>Id' = ''TEST1'', Name = ''Test One'', Date = ''20240101'',
                    Progs = [earlyShow, morningShow]\<rparr>]\<rparr>"

definition mixedSchedule :: RadikoPrograms where
  "mixedSchedule =
     \<lparr>Stations = [\<lparr>Id' = ''TEST1'', Name = ''Test One'', Date = ''20240101'',
                    Progs = [earlyShow, morningShow, undatedShow]\<rparr>]\<rparr>"

definition undatedSchedule :: RadikoPrograms where
  "undatedSchedule =
     \<lparr>Stations = [\<lparr>Id' = ''TEST1'', Name = ''Test One'', Date = ''20240101'',
                    Progs = [undatedShow]\<rparr>]\<rparr>"

text \<open>
  The stage-2 body is the one the provider sends: two empty lines, then the region, its
  name and a third field.
\<close>

definition authOk :: auth_world where
  "authOk =
     \<lparr>stage1 = Inr ''token'',
      stage2Response =
        Inr (Inr ([CHR 0x0D, CHR 0x0A, CHR 0x0D, CHR 0x0A] @ ''JP13,Tokyo,tokyo Japan''
                  @ [CHR 0x0D, CHR 0x0A])),
      stage2Cancelled = None\<rparr>"

definition authShortBody :: auth_world where
  "authShortBody = authOk\<lparr>stage2Response := Inr (Inr ''JP13'')\<rparr>"

definition downloadOk :: download_world where
  "downloadOk =
     \<lparr>lookRtmpdump = Inr ''/usr/bin/rtmpdump'', stdoutPipe = None, converterStart = None,
      rtmpdumpRun = None, converterWait = None, completesAfter = Some (1860 * Second),
      ctxDone = None, ctxErr = Error ''context canceled'', killPanics = False,
      signalBeatsDone = True\<rparr>"

text \<open>The capture process fails by itself after 2 seconds.\<close>

definition downloadFails :: download_world where
  "downloadFails =
     downloadOk\<lparr>rtmpdumpRun := Some (Error ''exit status 1''),
                completesAfter := Some (2 * Second)\<rparr>"

text \<open>
  The context is cancelled 5 seconds into the download: the killed capture process is
  reaped one second later; or the pipeline takes a minute more to end; or the pipeline
  ends one second later without an error.
\<close>

definition downloadKilled :: download_world where
  "downloadKilled =
     downloadOk\<lparr>rtmpdumpRun := Some (Error ''signal: killed''),
                completesAfter := Some (6 * Second), ctxDone := Some (5 * Second)\<rparr>"

definition downloadSlowStop :: download_world where
  "downloadSlowStop = downloadKilled\<lparr>completesAfter := Some (65 * Second)\<rparr>"

definition downloadQuietStop :: download_world where
  "downloadQuietStop = downloadKilled\<lparr>rtmpdumpRun := None\<rparr>"

text \<open>
  The context is already cancelled when the download reaches its \<^verbatim>\<open>select\<close>, before
  the worker has started the capture process.
\<close>

definition downloadNilKill :: download_world where
  "downloadNilKill = downloadKilled\<lparr>ctxDone := Some 0, killPanics := True\<rparr>"

text \<open>
  One attempt at 12:30: all goes well; the download fails and leaves no file; the
  download fails and leaves a file; the download is killed and leaves a file.
\<close>

definition worldOk :: attempt_world where
  "worldOk =
     \<lparr>authW = authOk, todayProgramsResult = (\<lambda>area. Inr testSchedule),
      parseInLocation = parseUTC, scanClock = (\<lambda>k. 1704112200), durationClock = 1704112200,
      timeString = show_int, downloadW = downloadOk, statOutput = None\<rparr>"

definition worldFails :: attempt_world where
  "worldFails =
     worldOk\<lparr>downloadW := downloadFails,
             statOutput := Some (Error ''stat: no such file or directory'')\<rparr>"

definition worldPartial :: attempt_world where
  "worldPartial = worldOk\<lparr>downloadW := downloadFails\<rparr>"

definition worldKilled :: attempt_world where
  "worldKilled = worldOk\<lparr>downloadW := downloadKilled\<rparr>"

text \<open>The same attempt at 12:00:00, the instant at which the first program ends.\<close>

definition worldNoon :: attempt_world where
  "worldNoon = worldOk\<lparr>scanClock := (\<lambda>k. 1704110400)\<rparr>"

definition worldMixed :: attempt_world where
  "worldMixed = worldOk\<lparr>todayProgramsResult := (\<lambda>area. Inr mixedSchedule)\<rparr>"

definition worldUndated :: attempt_world where
  "worldUndated = worldOk\<lparr>todayProgramsResult := (\<lambda>area. Inr undatedSchedule)\<rparr>"

definition radiko0 :: Radiko where
  "radiko0 =
     \<lparr>Radiko.Station = ''TEST1'', Bitrate = ''64k'', Buffer = 60,
      Converter = ''/usr/bin/ffmpeg'', TempDir = ''/tmp/radiko'', Result = None\<rparr>"

text \<open>
  Sessions: every attempt fails after 3 seconds; a first attempt that fails after 10
  minutes and leaves a file, then one that succeeds; a first attempt killed by a
  cancellation 6 seconds into the session, which ends one second later.
\<close>

definition envAllFail :: session_env where
  "envAllFail =
     \<lparr>worlds = (\<lambda>n. worldFails), latency = (\<lambda>n. 3 * Second), cancelAt = None,
      startBeatsDone = (\<lambda>n. True), finishBeatsDone = (\<lambda>n. True), finishBeatsTimer = True,
      filepath_Join = joinSlash, concatRun = None\<rparr>"

definition envRetryThenOk :: session_env where
  "envRetryThenOk =
     \<lparr>worlds = (\<lambda>n. if n = 0 then worldPartial else worldOk),
      latency = (\<lambda>n. if n = 0 then 600 * Second else 1260 * Second), cancelAt = None,
      startBeatsDone = (\<lambda>n. True), finishBeatsDone = (\<lambda>n. True), finishBeatsTimer = True,
      filepath_Join = joinSlash, concatRun = None\<rparr>"

definition envKilled :: session_env where
  "envKilled =
     \<lparr>worlds = (\<lambda>n. worldKilled), latency = (\<lambda>n. 7 * Second), cancelAt = Some (6 * Second),
      startBeatsDone = (\<lambda>n. True), finishBeatsDone = (\<lambda>n. True), finishBeatsTimer = True,
      filepath_Join = joinSlash, concatRun = None\<rparr>"






section \<open>Properties of the converter commands\<close>

lemma matchAtEnd_ffmpeg_avconv: "matchAtEnd ''avconv'' path \<Longrightarrow> \<not> matchAtEnd ''ffmpeg'' path"
  by (auto simp: matchAtEnd_def suffix_def)

lemma newConverterCmd_avconv:
  assumes "matchAtEnd ''avconv'' path"
  shows "newConverterCmd path bitrate output title author =
           Inr [path, ''-y'', ''-i'', ''-'', ''-vn'', ''-c:a'', ''copy'', output]"
  using assms matchAtEnd_ffmpeg_avconv[OF assms]
  by (simp add: newConverterCmd_def newAvconvCmd_def exec_Command_def)

lemma newConverterCmd_ffmpeg:
  assumes "matchAtEnd ''ffmpeg'' path"
  shows "newConverterCmd path bitrate output title author =
           Inr ([path, ''-y'', ''-i'', ''-'', ''-vn'', ''-acodec'', ''copy'']
                @ metadataArgs title author @ [output])"
  using assms
  by (simp add: newConverterCmd_def newFfmpegCmd_def exec_Command_def metadataArgs_def)

lemma avconv_without_metadata:
  "\<not> sublist (metadataArgs title author)
       [path, ''-y'', ''-i'', ''-'', ''-vn'', ''-c:a'', ''copy'', output]"
  by (simp add: metadataArgs_def sublist_Cons_right)

lemma metadata_iff_ffmpeg:
  "(\<exists>cmd. newConverterCmd path bitrate output title author = Inr cmd
          \<and> sublist (metadataArgs title author) cmd)
   \<longleftrightarrow> matchAtEnd ''ffmpeg'' path"
proof (cases "matchAtEnd ''ffmpeg'' path")
  case True
  have "sublist (metadataArgs title author)
          ([path, ''-y'', ''-i'', ''-'', ''-vn'', ''-acodec'', ''copy'']
           @ metadataArgs title author @ [output])"
    by (rule sublist_appendI)
  with True newConverterCmd_ffmpeg[OF True] show ?thesis by simp
next
  case False
  show ?thesis
  proof (cases "matchAtEnd ''avconv'' path")
    case True
    with False newConverterCmd_avconv[OF True] avconv_without_metadata show ?thesis
      by simp
  next
    case no: False
    with False show ?thesis by (simp add: newConverterCmd_def)
  qed
qed

lemma example_paths:
  "matchAtEnd ''ffmpeg'' ''/usr/bin/ffmpeg''"
  "matchAtEnd ''avconv'' ''/usr/bin/avconv''"
  by (simp_all add: matchAtEnd_def suffix_to_prefix)

text \<open>
  C9: for every converter path, output path, title and author, and any two bitrates, the
  decode command built is the same, and so is what \<^verbatim>\<open>download\<close> does; a command that
  is built copies the audio stream (\<^verbatim>\<open>-acodec copy\<close> or \<^verbatim>\<open>-c:a copy\<close>).
\<close>

theorem bitrate_has_no_effect:
  "newConverterCmd path b1 output title author = newConverterCmd path b2 output title author
   \<and> Radiko_download w r authtoken station sec b1 output title author
       = Radiko_download w r authtoken station sec b2 output title author
   \<and> (\<forall>cmd. newConverterCmd path b1 output title author = Inr cmd \<longrightarrow>
         sublist [''-acodec'', ''copy''] cmd \<or> sublist [''-c:a'', ''copy''] cmd)"
proof -
  have same: "newConverterCmd p b1 output title author = newConverterCmd p b2 output title author"
    for p
    by (simp add: newConverterCmd_def newFfmpegCmd_def newAvconvCmd_def)
  have "Radiko_download w r authtoken station sec b1 output title author
          = Radiko_download w r authtoken station sec b2 output title author"
    unfolding Radiko_download_def same[of "Converter r"] ..
  moreover have "sublist [''-acodec'', ''copy''] cmd \<or> sublist [''-c:a'', ''copy''] cmd"
    if "newConverterCmd path b1 output title author = Inr cmd" for cmd
    using that
    by (auto simp: newConverterCmd_def newFfmpegCmd_def newAvconvCmd_def exec_Command_def
        sublist_Cons_right split: if_splits)
  ultimately show ?thesis using same[of path] by blast
qed

theorem bitrate_has_no_effect_witness:
  "newConverterCmd ''/usr/bin/ffmpeg'' ''64k'' ''/tmp/radiko/radiko_0.m4a'' ''Morning Show'' ''Host B''
     = newConverterCmd ''/usr/bin/ffmpeg'' ''128k'' ''/tmp/radiko/radiko_0.m4a'' ''Morning Show'' ''Host B''
   \<and> newConverterCmd ''/usr/bin/ffmpeg'' ''64k'' ''/tmp/radiko/radiko_0.m4a'' ''Morning Show'' ''Host B''
     = Inr [''/usr/bin/ffmpeg'', ''-y'', ''-i'', ''-'', ''-vn'', ''-acodec'', ''copy'',
            ''-metadata'', ''title=Morning Show'', ''-metadata'', ''artist=Host B'',
            ''-metadata'', ''genre=radio'', ''/tmp/radiko/radiko_0.m4a'']
   \<and> sublist [''-acodec'', ''copy'']
        [''/usr/bin/ffmpeg'', ''-y'', ''-i'', ''-'', ''-vn'', ''-acodec'', ''copy'',
         ''-metadata'', ''title=Morning Show'', ''-metadata'', ''artist=Host B'',
         ''-metadata'', ''genre=radio'', ''/tmp/radiko/radiko_0.m4a'']"
  using bitrate_has_no_effect[of "''/usr/bin/ffmpeg''" "''64k''" "''/tmp/radiko/radiko_0.m4a''"
      "''Morning Show''" "''Host B''" "''128k''"]
    newConverterCmd_ffmpeg[OF example_paths(1), of "''64k''" "''/tmp/radiko/radiko_0.m4a''"
      "''Morning Show''" "''Host B''"]
  by (simp add: metadataArgs_def sublist_Cons_right)

text \<open>
  C10: when the converter path ends in \<^verbatim>\<open>avconv\<close>, the decode command is made of the
  path, six fixed arguments and the output, so the title and the author are dropped; the
  command carries the title, artist and genre metadata exactly when the path ends in
  \<^verbatim>\<open>ffmpeg\<close>.
\<close>

theorem avconv_drops_metadata:
  "(matchAtEnd ''avconv'' path \<longrightarrow>
      newConverterCmd path bitrate output title author
        = Inr [path, ''-y'', ''-i'', ''-'', ''-vn'', ''-c:a'', ''copy'', output]
      \<and> newConverterCmd path bitrate output title author
        = newConverterCmd path bitrate output title' author')
   \<and> ((\<exists>cmd. newConverterCmd path bitrate output title author = Inr cmd
              \<and> sublist (metadataArgs title author) cmd)
        \<longleftrightarrow> matchAtEnd ''ffmpeg'' path)"
  using newConverterCmd_avconv[of path] metadata_iff_ffmpeg[of path]
  by simp

theorem avconv_drops_metadata_witness:
  "matchAtEnd ''avconv'' ''/usr/bin/avconv''
   \<and> newConverterCmd ''/usr/bin/avconv'' ''64k'' ''/tmp/radiko/radiko_0.m4a'' ''Morning Show'' ''Host B''
       = Inr [''/usr/bin/avconv'', ''-y'', ''-i'', ''-'', ''-vn'', ''-c:a'', ''copy'',
              ''/tmp/radiko/radiko_0.m4a'']
   \<and> \<not> matchAtEnd ''ffmpeg'' ''/usr/bin/avconv''"
  using avconv_drops_metadata[of "''/usr/bin/avconv''" "''64k''" "''/tmp/radiko/radiko_0.m4a''"
      "''Morning Show''" "''Host B''"] example_paths(2)
  by (simp add: matchAtEnd_def suffix_to_prefix)

section \<open>Properties of the stage-2 authentication\<close>

lemma count_splitOn:
  "line \<in> set (splitOn c s) \<Longrightarrow> count_list line x \<le> count_list s x"
proof (induction s arbitrary: line)
  case Nil
  then show ?case by simp
next
  case (Cons a s)
  show ?case
  proof (cases "a = c")
    case True
    with Cons show ?thesis by (auto intro: le_SucI)
  next
    case False
    then obtain l ls where split: "splitOn c s = l # ls"
      by (cases "splitOn c s") (cases s; simp split: if_splits list.splits)+
    with Cons.prems False have "line = a # l \<or> line \<in> set ls" by auto
    then show ?thesis
    proof
      assume "line = a # l"
      moreover have "count_list l x \<le> count_list s x"
        using Cons.IH[of l] split by simp
      ultimately show ?thesis by simp
    next
      assume "line \<in> set ls"
      then have "count_list line x \<le> count_list s x"
        using Cons.IH[of line] split by simp
      then show ?thesis by (simp add: le_SucI)
    qed
  qed
qed

lemma findAllSubmatch_few_fields:
  assumes "count_list body CHR '','' < 2"
  shows "findAllSubmatch body = []"
proof -
  have "\<not> 2 \<le> count_list line CHR '',''" if "line \<in> set (splitOn (CHR 0x0A) body)" for line
    using count_splitOn[OF that, of "CHR '',''"] assms by simp
  then show ?thesis by (simp add: findAllSubmatch_def filter_empty_conv)
qed

lemma length_submatches: "length (submatches line) = 4"
  by (simp add: submatches_def Let_def split: prod.splits)

lemma findAllSubmatch_four:
  "i < length (findAllSubmatch body) \<Longrightarrow> length (findAllSubmatch body ! i) = 4"
  by (simp add: findAllSubmatch_def length_submatches)

text \<open>
  The guard of the stage-2 callback never fires, and a body with fewer than three
  comma-separated fields (fewer than two commas) makes the callback panic.
\<close>

lemma auth2Callback_never_failed_to_auth:
  "auth2Callback (Inr (Inr body)) \<noteq> Returns (Some (Error ''failed to auth''), area)"
  using findAllSubmatch_four[of 0 body]
  by (auto simp: auth2Callback_def Let_def)

lemma auth2Callback_few_fields:
  "count_list body CHR '','' < 2 \<Longrightarrow>
     auth2Callback (Inr (Inr body)) = Panics ''index out of range''"
  by (simp add: auth2Callback_def findAllSubmatch_few_fields)

text \<open>
  C3: a stage-2 body with fewer than three comma-separated fields is to give the error
  \<^verbatim>\<open>failed to auth\<close>. On the body \<^verbatim>\<open>JP13\<close>, a single field, \<^verbatim>\<open>auth\<close> panics
  instead: the pattern has no match, the guard asks for exactly one match, and
  \<^verbatim>\<open>matches[0]\<close> is read out of range.
\<close>

theorem auth_short_body_panics:
  "Radiko_auth authShortBody = Panics ''index out of range''"
  by (simp add: Radiko_auth_def authShortBody_def authOk_def httpDo_def auth2Callback_def
      findAllSubmatch_def)

section \<open>The example worlds evaluated\<close>

lemma parseUTC_examples:
  "parseUTC ''20240101110000'' = Inr 1704106800"
  "parseUTC ''20240101120000'' = Inr 1704110400"
  "parseUTC ''20240101130000'' = Inr 1704114000"
  "parseUTC [] = Inl ''parsing time''"
  by (simp_all add: parseUTC_def digitOf_def daysIn_def daysFromCivil_def leapYear_def)

lemma show_nat_digit: "n < 10 \<Longrightarrow> show_nat n = [digitChar n]"
  by (subst show_nat.simps) simp

lemma Radiko_auth_authOk: "Radiko_auth authOk = Returns (Inr (''token'', ''JP13''))"
  by (simp add: Radiko_auth_def authOk_def httpDo_def auth2Callback_def findAllSubmatch_def
      submatches_def splitLast_def)

lemma nowProgram_examples:
  "Radiko_nowProgram worldOk ''JP13'' ''TEST1'' = Inr morningShow"
  "Radiko_nowProgram worldFails ''JP13'' ''TEST1'' = Inr morningShow"
  "Radiko_nowProgram worldPartial ''JP13'' ''TEST1'' = Inr morningShow"
  "Radiko_nowProgram worldKilled ''JP13'' ''TEST1'' = Inr morningShow"
  "Radiko_nowProgram worldNoon ''JP13'' ''TEST1'' = Inr morningShow"
  "Radiko_nowProgram worldMixed ''JP13'' ''TEST1'' = Inr morningShow"
  "Radiko_nowProgram worldUndated ''JP13'' ''TEST1'' = Inl (ParseError ''parsing time'')"
  by (simp_all add: Radiko_nowProgram_def worldOk_def worldFails_def worldPartial_def
      worldKilled_def worldNoon_def worldMixed_def worldUndated_def testSchedule_def
      mixedSchedule_def undatedSchedule_def earlyShow_def
      morningShow_def undatedShow_def RadikoProg_FtTime_def RadikoProg_ToTime_def
      parseUTC_examples)

lemma morningShow_times:
  "RadikoProg_FtTime parseUTC morningShow = Inr 1704110400"
  "RadikoProg_ToTime parseUTC morningShow = Inr 1704114000"
  by (simp_all add: RadikoProg_FtTime_def RadikoProg_ToTime_def morningShow_def parseUTC_examples)

lemma download_examples:
  "Radiko_download downloadOk radiko0 tok st sec b out t a = Returns (1860 * Second, None)"
  "Radiko_download downloadFails radiko0 tok st sec b out t a
     = Returns (2 * Second, Some (Error ''exit status 1''))"
  "Radiko_download downloadKilled radiko0 tok st sec b out t a
     = Returns (6 * Second, Some (Error ''signal: killed''))"
  "Radiko_download downloadSlowStop radiko0 tok st sec b out t a
     = Returns (65 * Second, Some (Error ''signal: killed''))"
  "Radiko_download downloadQuietStop radiko0 tok st sec b out t a
     = Returns (6 * Second, Some (Error ''context canceled''))"
  "Radiko_download downloadNilKill radiko0 tok st sec b out t a
     = Panics ''nil pointer dereference''"
  by (simp_all add: Radiko_download_def downloadOk_def downloadFails_def downloadKilled_def
      downloadSlowStop_def downloadQuietStop_def downloadNilKill_def radiko0_def
      newConverterCmd_def example_paths downloadSelect_def pipelineSignal_def Second_def)

lemma world_fields:
  "authW worldOk = authOk" "authW worldFails = authOk" "authW worldPartial = authOk"
  "authW worldKilled = authOk"
  "parseInLocation worldOk = parseUTC" "parseInLocation worldFails = parseUTC"
  "parseInLocation worldPartial = parseUTC" "parseInLocation worldKilled = parseUTC"
  "durationClock worldOk = 1704112200" "durationClock worldFails = 1704112200"
  "durationClock worldPartial = 1704112200" "durationClock worldKilled = 1704112200"
  "downloadW worldOk = downloadOk" "downloadW worldFails = downloadFails"
  "downloadW worldPartial = downloadFails" "downloadW worldKilled = downloadKilled"
  "statOutput worldOk = None" "statOutput worldPartial = None" "statOutput worldKilled = None"
  "statOutput worldFails = Some (Error ''stat: no such file or directory'')"
  by (simp_all add: worldOk_def worldFails_def worldPartial_def worldKilled_def)

lemma record_examples:
  "Radiko_record worldOk radiko0 out ''TEST1'' b buf
     = Returns (Some \<lparr>Mp3Path = out, Prog = morningShow, RadikoResult.Station = ''TEST1''\<rparr>, None)"
  "Radiko_record worldFails radiko0 out ''TEST1'' b buf
     = Returns (None, Some (Error ''exit status 1''))"
  "Radiko_record worldPartial radiko0 out ''TEST1'' b buf
     = Returns (Some \<lparr>Mp3Path = out, Prog = morningShow, RadikoResult.Station = ''TEST1''\<rparr>,
                Some (Error ''exit status 1''))"
  "Radiko_record worldKilled radiko0 out ''TEST1'' b buf
     = Returns (Some \<lparr>Mp3Path = out, Prog = morningShow, RadikoResult.Station = ''TEST1''\<rparr>,
                Some (Error ''signal: killed''))"
  by (simp_all add: Radiko_record_def world_fields Radiko_auth_authOk nowProgram_examples RadikoProg_Duration_def morningShow_times download_examples)

lemma radiko0_fields:
  "Radiko.Station radiko0 = ''TEST1''" "TempDir radiko0 = ''/tmp/radiko''"
  "Converter radiko0 = ''/usr/bin/ffmpeg''"
  by (simp_all add: radiko0_def)

lemma run_envAllFail:
  "Radiko_run envAllFail radiko0 =
     Returns \<lparr>outputs = [],
              attempts = [(0, 0), (1, 13 * Second), (2, 26 * Second), (3, 39 * Second),
                          (4, 52 * Second), (5, 65 * Second)],
              endTime = 68 * Second\<rparr>"
  by (simp add: Radiko_run_def runLoop.simps envAllFail_def recordClosure_def doneTaken_def radiko0_fields record_examples)

lemma run_envRetryThenOk:
  "Radiko_run envRetryThenOk radiko0 =
     Returns \<lparr>outputs = [\<lparr>Mp3Path = ''/tmp/radiko/radiko_0.m4a'', Prog = morningShow, RadikoResult.Station = ''TEST1''\<rparr>,
                         \<lparr>Mp3Path = ''/tmp/radiko/radiko_1.m4a'', Prog = morningShow, RadikoResult.Station = ''TEST1''\<rparr>],
              attempts = [(0, 0), (1, 610 * Second)],
              endTime = 1870 * Second\<rparr>"
  by (simp add: Radiko_run_def runLoop.simps envRetryThenOk_def recordClosure_def
      doneTaken_def radiko0_fields record_examples attemptOutput_def joinSlash_def
      show_nat_digit digitChar_def)

lemma run_envKilled:
  "Radiko_run envKilled radiko0 =
     Returns \<lparr>outputs = [\<lparr>Mp3Path = ''/tmp/radiko/radiko_0.m4a'', Prog = morningShow, RadikoResult.Station = ''TEST1''\<rparr>],
              attempts = [(0, 0)],
              endTime = 7 * Second\<rparr>"
  by (simp add: Radiko_run_def runLoop.simps envKilled_def recordClosure_def doneTaken_def
      drain_def radiko0_fields record_examples attemptOutput_def joinSlash_def show_nat_digit
      digitChar_def Second_def)

section \<open>Properties of the program lookup\<close>

lemma find_append_first:
  "find P (xs @ ys) = (case find P xs of None \<Rightarrow> find P ys | Some x \<Rightarrow> Some x)"
  by (induction xs) simp_all

lemma find_Some_split:
  "find P xs = Some x \<longleftrightarrow> (\<exists>ys zs. xs = ys @ x # zs \<and> P x \<and> (\<forall>y\<in>set ys. \<not> P y))"
proof (induction xs)
  case Nil
  then show ?case by simp
next
  case (Cons a xs)
  show ?case
  proof (cases "P a")
    case True
    then show ?thesis by (auto simp: Cons_eq_append_conv)
  next
    case False
    show ?thesis
    proof
      assume "find P (a # xs) = Some x"
      with False Cons obtain ys zs where "xs = ys @ x # zs" "P x" "\<forall>y\<in>set ys. \<not> P y"
        by auto
      with False have "a # xs = (a # ys) @ x # zs \<and> P x \<and> (\<forall>y\<in>set (a # ys). \<not> P y)"
        by simp
      then show "\<exists>ys zs. a # xs = ys @ x # zs \<and> P x \<and> (\<forall>y\<in>set ys. \<not> P y)"
        by blast
    next
      assume "\<exists>ys zs. a # xs = ys @ x # zs \<and> P x \<and> (\<forall>y\<in>set ys. \<not> P y)"
      then obtain ys zs where split: "a # xs = ys @ x # zs" and px: "P x"
        and before: "\<forall>y\<in>set ys. \<not> P y"
        by blast
      from split px False obtain ys' where "ys = a # ys'" "xs = ys' @ x # zs"
        by (cases ys) auto
      with px before have "find P xs = Some x"
        using Cons.IH by auto
      with False show "find P (a # xs) = Some x" by simp
    qed
  qed
qed

text \<open>
  The scan stops at the first program whose timestamps do not parse or whose interval
  holds the instant, and returns the error of the parser or that program.
\<close>

lemma onAir_parses: "onAir parse now p \<Longrightarrow> stampsParse parse p"
  by (auto simp: onAir_def stampsParse_def split: sum.splits)

lemma scanProgs_find:
  assumes "\<forall>k. clock k = now"
  shows "scanProgs parse clock k ps =
           (case find (\<lambda>p. \<not> stampsParse parse p \<or> onAir parse now p) ps of
              None \<Rightarrow> None
            | Some p \<Rightarrow>
                Some (case RadikoProg_FtTime parse p of Inl err \<Rightarrow> Inl err
                      | Inr ft \<Rightarrow>
                          (case RadikoProg_ToTime parse p of Inl err \<Rightarrow> Inl err
                           | Inr to \<Rightarrow> Inr p)))"
proof (induction ps arbitrary: k)
  case Nil
  then show ?case by simp
next
  case (Cons p ps)
  then show ?case
    using assms by (auto simp: stampsParse_def onAir_def split: sum.splits)
qed

lemma scanStations_find:
  assumes "\<forall>k. clock k = now"
  shows "scanStations parse clock k station ss =
           (case find (\<lambda>p. \<not> stampsParse parse p \<or> onAir parse now p) (listedProgs station ss) of
              None \<Rightarrow> Inl (Error ''not found program'')
            | Some p \<Rightarrow>
                (case RadikoProg_FtTime parse p of Inl err \<Rightarrow> Inl err
                 | Inr ft \<Rightarrow>
                     (case RadikoProg_ToTime parse p of Inl err \<Rightarrow> Inl err
                      | Inr to \<Rightarrow> Inr p)))"
proof (induction ss arbitrary: k)
  case Nil
  then show ?case by (simp add: listedProgs_def)
next
  case (Cons s ss)
  show ?case
  proof (cases "Id' s = station")
    case True
    have "listedProgs station (s # ss) = Progs s @ listedProgs station ss"
      using True by (simp add: listedProgs_def)
    then show ?thesis
      using True Cons.IH scanProgs_find[OF assms, of parse k "Progs s"]
      by (simp add: find_append_first split: option.splits)
  next
    case False
    then have "listedProgs station (s # ss) = listedProgs station ss"
      by (simp add: listedProgs_def)
    with False Cons show ?thesis by simp
  qed
qed

lemma parse_failure_is_ParseError:
  "RadikoProg_FtTime parse p = Inl err \<Longrightarrow> \<exists>msg. err = ParseError msg"
  "RadikoProg_ToTime parse p = Inl err \<Longrightarrow> \<exists>msg. err = ParseError msg"
  by (auto simp: RadikoProg_FtTime_def RadikoProg_ToTime_def split: sum.splits)

text \<open>
  C2, as amended: for every fetched schedule, station identifier \<open>station\<close> and
  instant \<open>now\<close> (the clock reading \<open>now\<close> at each comparison), the lookup returns a
  program \<open>P\<close> if and only if \<open>P\<close> is listed under a station with that id, its start
  and end satisfy \<open>ft \<le> now < to\<close>, it is the first such program in list order, and
  the timestamps of every program listed before it parse; it fails with the not-found
  error exactly when the timestamps of every listed program of the station parse and
  none of these programs holds \<open>now\<close>, which includes that no station has the id.
\<close>

theorem current_program_lookup:
  assumes "todayProgramsResult w area = Inr sched"
    and "\<forall>k. scanClock w k = now"
  shows "(Radiko_nowProgram w area station = Inr P \<longleftrightarrow>
            (\<exists>before after. listedProgs station (Stations sched) = before @ P # after
               \<and> onAir (parseInLocation w) now P
               \<and> (\<forall>q\<in>set before. stampsParse (parseInLocation w) q
                                   \<and> \<not> onAir (parseInLocation w) now q)))
       \<and> (Radiko_nowProgram w area station = Inl (Error ''not found program'') \<longleftrightarrow>
            (\<forall>q\<in>set (listedProgs station (Stations sched)).
               stampsParse (parseInLocation w) q \<and> \<not> onAir (parseInLocation w) now q))"
proof -
  let ?parse = "parseInLocation w"
  let ?listed = "listedProgs station (Stations sched)"
  let ?stop = "\<lambda>p. \<not> stampsParse ?parse p \<or> onAir ?parse now p"
  have eq: "Radiko_nowProgram w area station =
              (case find ?stop ?listed of
                 None \<Rightarrow> Inl (Error ''not found program'')
               | Some p \<Rightarrow>
                   (case RadikoProg_FtTime ?parse p of Inl err \<Rightarrow> Inl err
                    | Inr ft \<Rightarrow>
                        (case RadikoProg_ToTime ?parse p of Inl err \<Rightarrow> Inl err
                         | Inr to \<Rightarrow> Inr p)))"
    using scanStations_find[OF assms(2)] assms(1) by (simp add: Radiko_nowProgram_def)
  have found: "Radiko_nowProgram w area station = Inr P
                 \<longleftrightarrow> find ?stop ?listed = Some P \<and> onAir ?parse now P"
  proof
    assume "Radiko_nowProgram w area station = Inr P"
    then obtain p where p: "find ?stop ?listed = Some p" and "stampsParse ?parse p" and "p = P"
      by (auto simp: eq stampsParse_def split: option.splits sum.splits)
    moreover from p have "?stop p" by (auto simp: find_Some_split)
    ultimately show "find ?stop ?listed = Some P \<and> onAir ?parse now P" by auto
  next
    assume "find ?stop ?listed = Some P \<and> onAir ?parse now P"
    then show "Radiko_nowProgram w area station = Inr P"
      by (auto simp: eq onAir_def split: sum.splits)
  qed
  have missing: "Radiko_nowProgram w area station = Inl (Error ''not found program'')
                   \<longleftrightarrow> find ?stop ?listed = None"
    by (auto simp: eq split: option.splits sum.splits dest: parse_failure_is_ParseError)
  have first: "(find ?stop ?listed = Some P \<and> onAir ?parse now P) \<longleftrightarrow>
                 (\<exists>before after. ?listed = before @ P # after \<and> onAir ?parse now P
                    \<and> (\<forall>q\<in>set before. stampsParse ?parse q \<and> \<not> onAir ?parse now q))"
    unfolding find_Some_split by blast
  have none: "find ?stop ?listed = None \<longleftrightarrow>
                (\<forall>q\<in>set ?listed. stampsParse ?parse q \<and> \<not> onAir ?parse now q)"
    unfolding find_None_iff by blast
  show ?thesis
    unfolding found missing first none by simp
qed

text \<open>
  When the scan meets a program whose timestamps do not parse before any program that
  holds the instant, the lookup returns the error of the parser.
\<close>

lemma current_program_lookup_parse_error:
  assumes "todayProgramsResult w area = Inr sched"
    and "\<forall>k. scanClock w k = now"
    and "listedProgs station (Stations sched) = before @ p # after"
    and "\<not> stampsParse (parseInLocation w) p"
    and "\<forall>q\<in>set before. stampsParse (parseInLocation w) q \<and> \<not> onAir (parseInLocation w) now q"
  shows "\<exists>msg. Radiko_nowProgram w area station = Inl (ParseError msg)"
proof -
  let ?parse = "parseInLocation w"
  let ?stop = "\<lambda>p. \<not> stampsParse ?parse p \<or> onAir ?parse now p"
  have "find ?stop (listedProgs station (Stations sched)) = Some p"
    unfolding find_Some_split using assms(3,4,5) by blast
  then have "Radiko_nowProgram w area station =
               (case RadikoProg_FtTime ?parse p of Inl err \<Rightarrow> Inl err
                | Inr ft \<Rightarrow>
                    (case RadikoProg_ToTime ?parse p of Inl err \<Rightarrow> Inl err
                     | Inr to \<Rightarrow> Inr p))"
    using scanStations_find[OF assms(2)] assms(1) by (simp add: Radiko_nowProgram_def)
  with assms(4) show ?thesis
    by (auto simp: stampsParse_def split: sum.splits dest: parse_failure_is_ParseError)
qed

lemma show_times:
  "RadikoProg_FtTime parseUTC earlyShow = Inr 1704106800"
  "RadikoProg_ToTime parseUTC earlyShow = Inr 1704110400"
  "RadikoProg_FtTime parseUTC undatedShow = Inl (ParseError ''parsing time'')"
  by (simp_all add: RadikoProg_FtTime_def RadikoProg_ToTime_def earlyShow_def undatedShow_def
      morningShow_def parseUTC_examples)

theorem current_program_lookup_witness:
  "Radiko_nowProgram worldMixed ''JP13'' ''TEST1'' = Inr morningShow
   \<and> todayProgramsResult worldMixed ''JP13'' = Inr mixedSchedule
   \<and> listedProgs ''TEST1'' (Stations mixedSchedule) = [earlyShow] @ morningShow # [undatedShow]
   \<and> onAir parseUTC 1704112200 morningShow
   \<and> stampsParse parseUTC earlyShow \<and> \<not> onAir parseUTC 1704112200 earlyShow
   \<and> \<not> stampsParse parseUTC undatedShow"
proof -
  have fetched: "todayProgramsResult worldMixed ''JP13'' = Inr mixedSchedule"
    and clock: "\<forall>k. scanClock worldMixed k = 1704112200"
    and parse: "parseInLocation worldMixed = parseUTC"
    by (simp_all add: worldMixed_def worldOk_def)
  have listed:
    "listedProgs ''TEST1'' (Stations mixedSchedule) = [earlyShow] @ morningShow # [undatedShow]"
    by (simp add: listedProgs_def mixedSchedule_def)
  have air: "onAir parseUTC 1704112200 morningShow" "\<not> onAir parseUTC 1704112200 earlyShow"
    and early: "stampsParse parseUTC earlyShow"
    and undated: "\<not> stampsParse parseUTC undatedShow"
    by (simp_all add: onAir_def stampsParse_def show_times morningShow_times)
  have "\<exists>before after. listedProgs ''TEST1'' (Stations mixedSchedule) = before @ morningShow # after
          \<and> onAir (parseInLocation worldMixed) 1704112200 morningShow
          \<and> (\<forall>q\<in>set before. stampsParse (parseInLocation worldMixed) q
                              \<and> \<not> onAir (parseInLocation worldMixed) 1704112200 q)"
    using listed air early parse by (intro exI[of _ "[earlyShow]"] exI[of _ "[undatedShow]"]) simp
  with current_program_lookup[OF fetched clock, of "''TEST1''" morningShow]
  have "Radiko_nowProgram worldMixed ''JP13'' ''TEST1'' = Inr morningShow"
    by blast
  with fetched listed air early undated show ?thesis by simp
qed

text \<open>
  The claim as stated fails on a schedule whose only program of the station has empty
  timestamps: no listed program holds the instant, and the lookup returns the error of
  the parser, not the not-found error.
\<close>

theorem current_program_lookup_counterexample:
  "Radiko_nowProgram worldUndated ''JP13'' ''TEST1'' = Inl (ParseError ''parsing time'')
   \<and> todayProgramsResult worldUndated ''JP13'' = Inr undatedSchedule
   \<and> listedProgs ''TEST1'' (Stations undatedSchedule) = [undatedShow]
   \<and> \<not> onAir (parseInLocation worldUndated) (scanClock worldUndated 0) undatedShow
   \<and> ParseError ''parsing time'' \<noteq> Error ''not found program''"
proof -
  have "todayProgramsResult worldUndated ''JP13'' = Inr undatedSchedule"
    and "parseInLocation worldUndated = parseUTC"
    by (simp_all add: worldUndated_def worldOk_def)
  moreover have "listedProgs ''TEST1'' (Stations undatedSchedule) = [undatedShow]"
    by (simp add: listedProgs_def undatedSchedule_def)
  moreover have "\<not> onAir parseUTC now undatedShow" for now
    by (simp add: onAir_def show_times)
  ultimately show ?thesis
    by (simp add: nowProgram_examples)
qed

section \<open>Properties of one capture attempt\<close>



section \<open>Properties of the session result\<close>

lemma ConcatOutput_several:
  assumes "results \<noteq> []"
  shows "Radiko_ConcatOutput env r (TempDir r) results =
           (case concatRun env of
              Some err \<Rightarrow> (Returns (Inl err), [mergeCmd env r results])
            | None \<Rightarrow>
                (Returns (Inr \<lparr>Mp3Path = filepath_Join env (TempDir r) ''radiko_concat.m4a'',
                               Prog = Prog (hd results),
                               RadikoResult.Station = RadikoResult.Station (hd results)\<rparr>),
                 [mergeCmd env r results]))"
  using assms
  by (cases results)
     (simp_all add: Radiko_ConcatOutput_def mergeCmd_def exec_Command_def Let_def
        split: option.splits)

text \<open>
  C5: for every session that has ended, the merge step runs if and only if more than one
  output was collected. With no output \<^verbatim>\<open>Run\<close> returns the error \<^verbatim>\<open>empty outputs\<close>;
  with exactly one output the result is that output, unchanged, and no command is run;
  with more than one output exactly one command is run, the converter on the outputs
  joined in capture order, and when it succeeds the result carries the merged file and
  the program and station of the first output (when it fails \<^verbatim>\<open>Run\<close> returns its
  error).
\<close>

theorem merge_iff_several_outputs:
  assumes "Radiko_run env r = Returns s"
  shows "(outputs s = [] \<longrightarrow>
            Radiko_Run env r = Returns (r, Some (Error ''empty outputs''), []))
       \<and> (\<forall>x. outputs s = [x] \<longrightarrow>
            Radiko_Run env r = Returns (r\<lparr>Result := Some x\<rparr>, None, []))
       \<and> (1 < length (outputs s) \<longrightarrow>
            (concatRun env = None \<longrightarrow>
               Radiko_Run env r =
                 Returns (r\<lparr>Result :=
                             Some \<lparr>Mp3Path = filepath_Join env (TempDir r) ''radiko_concat.m4a'',
                                   Prog = Prog (hd (outputs s)),
                                   RadikoResult.Station = RadikoResult.Station (hd (outputs s))\<rparr>\<rparr>,
                          None, [mergeCmd env r (outputs s)]))
          \<and> (\<forall>err. concatRun env = Some err \<longrightarrow>
               Radiko_Run env r = Returns (r, Some err, [mergeCmd env r (outputs s)])))
       \<and> (\<exists>r' err cmds. Radiko_Run env r = Returns (r', err, cmds)
             \<and> (cmds \<noteq> [] \<longleftrightarrow> 1 < length (outputs s)) \<and> length cmds \<le> 1)"
proof -
  have none: "Radiko_Run env r = Returns (r, Some (Error ''empty outputs''), [])"
    if "outputs s = []"
    using assms that by (simp add: Radiko_Run_def)
  have one: "Radiko_Run env r = Returns (r\<lparr>Result := Some x\<rparr>, None, [])"
    if "outputs s = [x]" for x
    using assms that by (simp add: Radiko_Run_def)
  have several:
    "Radiko_Run env r =
       (case concatRun env of
          Some err \<Rightarrow> Returns (r, Some err, [mergeCmd env r (outputs s)])
        | None \<Rightarrow>
            Returns (r\<lparr>Result :=
                        Some \<lparr>Mp3Path = filepath_Join env (TempDir r) ''radiko_concat.m4a'',
                              Prog = Prog (hd (outputs s)),
                              RadikoResult.Station = RadikoResult.Station (hd (outputs s))\<rparr>\<rparr>,
                     None, [mergeCmd env r (outputs s)]))"
    if "1 < length (outputs s)"
  proof -
    from that have "outputs s \<noteq> []" "length (outputs s) \<noteq> 0" "length (outputs s) \<noteq> 1"
      by auto
    then show ?thesis
      using assms ConcatOutput_several[of "outputs s" env r]
      by (simp add: Radiko_Run_def Let_def split: option.splits)
  qed
  have cases: "outputs s = [] \<or> (\<exists>x. outputs s = [x]) \<or> 1 < length (outputs s)"
    by (cases "outputs s"; simp)
  have count: "\<exists>r' err cmds. Radiko_Run env r = Returns (r', err, cmds)
                 \<and> (cmds \<noteq> [] \<longleftrightarrow> 1 < length (outputs s)) \<and> length cmds \<le> 1"
    using cases
  proof (elim disjE exE)
    assume "outputs s = []"
    with none show ?thesis by simp
  next
    fix x assume "outputs s = [x]"
    with one show ?thesis by simp
  next
    assume "1 < length (outputs s)"
    with several show ?thesis by (cases "concatRun env") simp_all
  qed
  from none one several count show ?thesis by simp
qed

theorem merge_iff_several_outputs_witness:
  "Radiko_run envRetryThenOk radiko0 =
     Returns \<lparr>outputs = [\<lparr>Mp3Path = ''/tmp/radiko/radiko_0.m4a'', Prog = morningShow,
                           RadikoResult.Station = ''TEST1''\<rparr>,
                         \<lparr>Mp3Path = ''/tmp/radiko/radiko_1.m4a'', Prog = morningShow,
                           RadikoResult.Station = ''TEST1''\<rparr>],
              attempts = [(0, 0), (1, 610 * Second)], endTime = 1870 * Second\<rparr>
   \<and> Radiko_Run envRetryThenOk radiko0 =
       Returns (radiko0\<lparr>Result := Some \<lparr>Mp3Path = ''/tmp/radiko/radiko_concat.m4a'',
                                         Prog = morningShow,
                                         RadikoResult.Station = ''TEST1''\<rparr>\<rparr>,
                None,
                [[''/usr/bin/ffmpeg'', ''-i'',
                  ''concat:/tmp/radiko/radiko_0.m4a|/tmp/radiko/radiko_1.m4a'',
                  ''-acodec'', ''copy'', ''/tmp/radiko/radiko_concat.m4a'']])"
  using merge_iff_several_outputs[OF run_envRetryThenOk] run_envRetryThenOk
  by (simp add: mergeCmd_def envRetryThenOk_def radiko0_fields joinSlash_def)

section \<open>Properties of the result persister\<close>






section \<open>Properties of the session supervisor\<close>

lemma drain_attempts:
  "drain c inflight signalWins results started = Returns s \<Longrightarrow> attempts s = started"
  by (auto simp: drain_def Let_def split: option.splits prod.splits if_splits exec.splits)








lemma recordClosure_fails:
  assumes "attemptFails env r n"
  obtains results' e where "recordClosure env r n results = Returns (results', Some e)"
  using assms
  by (auto simp: attemptFails_def recordClosure_def Let_def
      split: exec.splits option.splits prod.splits)

lemma runLoop_retry:
  assumes "cancelAt env = None"
    and "recordClosure env r retry results = Returns (results', Some e)"
    and "retry < 5"
  shows "runLoop env r retry t results started =
           runLoop env r (Suc retry) (t + latency env retry + 10 * Second) results'
             (started @ [(retry, t)])"
  using assms by (subst runLoop.simps) (simp add: doneTaken_def)

lemma runLoop_exhausted:
  assumes "cancelAt env = None"
    and "recordClosure env r retry results = Returns (results', Some e)"
    and "\<not> retry < 5"
  shows "runLoop env r retry t results started =
           Returns \<lparr>outputs = results', attempts = started @ [(retry, t)],
                    endTime = t + latency env retry\<rparr>"
  using assms by (subst runLoop.simps) (simp add: doneTaken_def)

lemma runLoop_all_fail:
  assumes "cancelAt env = None" and "\<forall>n<6. attemptFails env r n" and "retry \<le> 5"
  shows "\<exists>results'. runLoop env r retry (retryStart env retry) results started =
           Returns \<lparr>outputs = results',
                    attempts = started @ map (\<lambda>n. (n, retryStart env n)) [retry..<6],
                    endTime = retryStart env 5 + latency env 5\<rparr>"
  using assms(3)
proof (induction "5 - retry" arbitrary: retry results started)
  case 0
  then have r5: "retry = 5" by simp
  have upt: "[5..<6] = [5::nat]" by (simp add: upt_rec)
  have "attemptFails env r 5" using assms(2) by simp
  then obtain results' e where "recordClosure env r 5 results = Returns (results', Some e)"
    by (rule recordClosure_fails)
  from runLoop_exhausted[OF assms(1) this, of "retryStart env 5" started]
  show ?case using r5 upt by simp
next
  case (Suc k)
  then have lt: "retry < 5" and k: "k = 5 - Suc retry" and le: "Suc retry \<le> 5" by auto
  have "attemptFails env r retry" using assms(2) lt by simp
  then obtain results1 e where "recordClosure env r retry results = Returns (results1, Some e)"
    by (rule recordClosure_fails)
  from runLoop_retry[OF assms(1) this lt, of "retryStart env retry" started]
  have step:
    "runLoop env r retry (retryStart env retry) results started =
       runLoop env r (Suc retry) (retryStart env (Suc retry)) results1
         (started @ [(retry, retryStart env retry)])"
    by simp
  from Suc.hyps(1)[OF k le, of results1 "started @ [(retry, retryStart env retry)]"]
  obtain results' where
    "runLoop env r (Suc retry) (retryStart env (Suc retry)) results1
         (started @ [(retry, retryStart env retry)]) =
       Returns \<lparr>outputs = results',
                attempts = (started @ [(retry, retryStart env retry)])
                             @ map (\<lambda>n. (n, retryStart env n)) [Suc retry..<6],
                endTime = retryStart env 5 + latency env 5\<rparr>"
    by auto
  moreover have "[retry..<6] = retry # [Suc retry..<6]"
    using lt by (simp add: upt_rec)
  ultimately show ?case using step by simp
qed

lemma runLoop_bound:
  "retry \<le> 5 \<Longrightarrow> runLoop env r retry t results started = Returns s \<Longrightarrow>
     length (attempts s) \<le> length started + (6 - retry)"
proof (induction "5 - retry" arbitrary: retry t results started)
  case 0
  then show ?case
    by (subst (asm) runLoop.simps)
       (auto simp: Let_def dest!: drain_attempts
             split: option.splits exec.splits prod.splits if_splits)
next
  case (Suc k)
  have IH: "length (attempts s) \<le> length started' + (6 - Suc retry)"
    if "runLoop env r (Suc retry) t' results' started' = Returns s" for t' results' started'
    using Suc.hyps(1)[of "Suc retry" t' results' started'] Suc.hyps(2) that by simp
  show ?case
    using Suc.prems(2) Suc.hyps(2)
    by (subst (asm) runLoop.simps)
       (auto simp: Let_def dest!: drain_attempts IH
             split: option.splits exec.splits prod.splits if_splits)
qed

text \<open>
  C1, as amended: no session starts a 7th attempt; and for every session whose context
  is not cancelled and in which each of the attempts 0 to 5 returns an error, the
  session makes exactly 6 attempts, the first at once and each retry 10 seconds after
  the failure of the attempt before it, and ends when the 6th has failed.
\<close>

theorem retry_ceiling:
  "(\<forall>s. Radiko_run env r = Returns s \<longrightarrow> length (attempts s) \<le> 6)
   \<and> (cancelAt env = None \<and> (\<forall>n<6. attemptFails env r n) \<longrightarrow>
        (\<exists>s. Radiko_run env r = Returns s
            \<and> attempts s = map (\<lambda>n. (n, retryStart env n)) [0..<6]
            \<and> length (attempts s) = 6
            \<and> endTime s = retryStart env 5 + latency env 5))"
proof (intro conjI allI impI)
  fix s assume "Radiko_run env r = Returns s"
  then show "length (attempts s) \<le> 6"
    using runLoop_bound[of 0 env r 0 "[]" "[]" s] by (simp add: Radiko_run_def)
next
  assume "cancelAt env = None \<and> (\<forall>n<6. attemptFails env r n)"
  then obtain results' where
    "runLoop env r 0 (retryStart env 0) [] [] =
       Returns \<lparr>outputs = results',
                attempts = [] @ map (\<lambda>n. (n, retryStart env n)) [0..<6],
                endTime = retryStart env 5 + latency env 5\<rparr>"
    using runLoop_all_fail[of env r 0 "[]" "[]"] by auto
  then show "\<exists>s. Radiko_run env r = Returns s
            \<and> attempts s = map (\<lambda>n. (n, retryStart env n)) [0..<6]
            \<and> length (attempts s) = 6
            \<and> endTime s = retryStart env 5 + latency env 5"
    by (simp add: Radiko_run_def)
qed

lemma envAllFail_fails: "attemptFails envAllFail radiko0 n"
  by (simp add: attemptFails_def envAllFail_def radiko0_fields record_examples)

lemma envKilled_fails: "attemptFails envKilled radiko0 n"
  by (simp add: attemptFails_def envKilled_def radiko0_fields record_examples)

lemma retryStart_envAllFail:
  "map (\<lambda>n. (n, retryStart envAllFail n)) [0..<6] =
     [(0, 0), (1, 13 * Second), (2, 26 * Second), (3, 39 * Second), (4, 52 * Second),
      (5, 65 * Second)]"
  by (simp add: upt_rec eval_nat_numeral envAllFail_def)

theorem retry_ceiling_witness:
  "cancelAt envAllFail = None
   \<and> attemptFails envAllFail radiko0 0 \<and> attemptFails envAllFail radiko0 1
   \<and> attemptFails envAllFail radiko0 2 \<and> attemptFails envAllFail radiko0 3
   \<and> attemptFails envAllFail radiko0 4 \<and> attemptFails envAllFail radiko0 5
   \<and> Radiko_run envAllFail radiko0 =
       Returns \<lparr>outputs = [],
                attempts = [(0, 0), (1, 13 * Second), (2, 26 * Second), (3, 39 * Second),
                            (4, 52 * Second), (5, 65 * Second)],
                endTime = 68 * Second\<rparr>"
proof -
  have hyp: "cancelAt envAllFail = None \<and> (\<forall>n<6. attemptFails envAllFail radiko0 n)"
    by (simp add: envAllFail_fails) (simp add: envAllFail_def)
  from mp[OF conjunct2[OF retry_ceiling[of envAllFail radiko0]] hyp]
  obtain s where "Radiko_run envAllFail radiko0 = Returns s"
    and "attempts s = map (\<lambda>n. (n, retryStart envAllFail n)) [0..<6]"
    by blast
  then have "attempts s = [(0, 0), (1, 13 * Second), (2, 26 * Second), (3, 39 * Second),
                            (4, 52 * Second), (5, 65 * Second)]"
    by (simp only: retryStart_envAllFail)
  with hyp run_envAllFail show ?thesis
    by (simp add: envAllFail_fails)
qed

text \<open>
  The claim as stated fails when the context is cancelled: 6 seconds into the session
  the first attempt is in flight, it is killed and returns an error one second later,
  and the session ends with this one attempt made.
\<close>

theorem retry_ceiling_counterexample:
  "attemptFails envKilled radiko0 0 \<and> attemptFails envKilled radiko0 1
   \<and> attemptFails envKilled radiko0 2 \<and> attemptFails envKilled radiko0 3
   \<and> attemptFails envKilled radiko0 4 \<and> attemptFails envKilled radiko0 5
   \<and> Radiko_run envKilled radiko0 =
       Returns \<lparr>outputs = [\<lparr>Mp3Path = ''/tmp/radiko/radiko_0.m4a'', Prog = morningShow,
                             RadikoResult.Station = ''TEST1''\<rparr>],
                attempts = [(0, 0)], endTime = 7 * Second\<rparr>
   \<and> length [(0::nat, 0::nat)] \<noteq> 6"
  by (simp add: envKilled_fails run_envKilled)

end
